theory Spec2Isabelle
  imports Main
begin

unbundle bit_operations_syntax

section \<open>Values, exceptions and the outside world\<close>

text \<open>
  The module \<open>decorators.py\<close> memoizes a function on disk.

  A Python value is one of the built-in scalars or some other object. Of an object the
  wrapper only ever uses the text \<open>str()\<close> gives, whether its type supports weak
  references (instances of ordinary classes do; \<open>int\<close>, \<open>str\<close>, \<open>bool\<close>,
  \<open>list\<close>, \<open>tuple\<close> and \<open>None\<close> do not) and its truth value (\<open>[]\<close>,
  \<open>()\<close> and \<open>0.0\<close> are false), so \<open>PObj\<close> carries exactly these three, in
  this order.
\<close>

datatype pyval =
    PNone
  | PBool bool
  | PInt int
  | PStr string
  | PObj string bool bool

text \<open>An exception: its class name and its \<open>args\<close> tuple.\<close>

datatype exn = Exn (exn_class: string) (exn_args: "pyval list")

definition IndexError :: exn where
  "IndexError = Exn ''IndexError'' [PStr ''tuple index out of range'']"

definition TypeError :: exn where
  "TypeError = Exn ''TypeError'' [PStr ''cannot create weak reference'']"

text \<open>Python's \<open>str()\<close> on these values; an integer is rendered in decimal.\<close>

fun str_nat :: "nat \<Rightarrow> string" where
  "str_nat n =
     (if n < 10 then [''0123456789'' ! n]
      else str_nat (n div 10) @ [''0123456789'' ! (n mod 10)])"

declare str_nat.simps [simp del]

fun str :: "pyval \<Rightarrow> string" where
  "str PNone = ''None''"
| "str (PBool b) = (if b then ''True'' else ''False'')"
| "str (PInt i) = (if i < 0 then ''-'' @ str_nat (nat (- i)) else str_nat (nat i))"
| "str (PStr s) = s"
| "str (PObj s w t) = s"

text \<open>Truth value of an object, as \<open>not recompute\<close> tests it.\<close>

fun truthy :: "pyval \<Rightarrow> bool" where
  "truthy PNone = False"
| "truthy (PBool b) = b"
| "truthy (PInt i) = (i \<noteq> 0)"
| "truthy (PStr s) = (s \<noteq> [])"
| "truthy (PObj s w t) = t"

text \<open>Whether \<open>weakref.WeakValueDictionary.__setitem__\<close> accepts the value.\<close>

fun weakrefable :: "pyval \<Rightarrow> bool" where
  "weakrefable (PObj s w t) = w"
| "weakrefable v = False"

text \<open>
  A file of the cache: its bytes, its group and its permission bits. A directory is
  known by what \<open>os.stat\<close> reports of it.
\<close>

record cfile =
  fdata :: string
  fgid :: int
  fmode :: int

record stat_result =
  st_gid :: int
  st_mode :: int

text \<open>
  What the code calls and does not define: the hash, the pickler, and the system calls
  that may fail. \<open>sha1_hexdigest y\<close> is what \<open>sha1(y).hexdigest()\<close> does on the
  text \<open>y\<close>: on Python 2 it gives the digest, on Python 3 \<open>sha1\<close> of a \<open>str\<close>
  raises \<open>TypeError\<close>. Each fault is the exception the call raises at that argument
  (\<open>None\<close>: the call succeeds); all of them are subclasses of \<open>Exception\<close>.
  \<open>pickle_dump\<close> gives the bytes written, or the exception together with the bytes
  that reached the file before it was raised. A file that \<open>open(fn, 'wb')\<close> creates
  gets \<open>default_gid\<close> and \<open>default_mode\<close> (the process's group and umask).
\<close>

record sys =
  sha1_hexdigest :: "string \<Rightarrow> exn + string"
  pickle_load :: "string \<Rightarrow> exn + pyval"
  pickle_dump :: "pyval \<Rightarrow> (exn \<times> string) + string"
  open_rb_fault :: "string \<Rightarrow> exn option"
  open_wb_fault :: "string \<Rightarrow> exn option"
  fchown_fault :: "string \<Rightarrow> int \<Rightarrow> exn option"
  fchmod_fault :: "string \<Rightarrow> int \<Rightarrow> exn option"
  mkdir_fault :: "string \<Rightarrow> exn option"
  default_gid :: int
  default_mode :: int
  default_dir_mode :: int

section \<open>The key encoder\<close>

text \<open>
  \<^verbatim>\<open>
  def _format_filename(s):
      valid_chars = frozenset("-_.() %s%s" % (string.ascii_letters, string.digits))
      return ''.join(c for c in s if c in valid_chars).replace(' ','_')
  \<close>
\<close>

definition ascii_letters :: string where
  "ascii_letters = ''abcdefghijklmnopqrstuvwxyzABCDEFGHIJKLMNOPQRSTUVWXYZ''"

definition digits :: string where
  "digits = ''0123456789''"

definition valid_chars :: "char set" where
  "valid_chars = set (''-_.() '' @ ascii_letters @ digits)"

definition replace_space :: "string \<Rightarrow> string" where
  "replace_space s = map (\<lambda>c. if c = CHR '' '' then CHR ''_'' else c) s"

definition format_filename :: "string \<Rightarrow> string" where
  "format_filename s = replace_space (filter (\<lambda>c. c \<in> valid_chars) s)"

text \<open>\<open>sep.join(xs)\<close>\<close>

fun join :: "string \<Rightarrow> string list \<Rightarrow> string" where
  "join sep [] = []"
| "join sep [x] = x"
| "join sep (x # y # ys) = x @ sep @ join sep (y # ys)"

text \<open>
  \<^verbatim>\<open>
  def name(x):
      y = str(x)
      if len(y) > 40:
          y = sha1(y).hexdigest()
      return y
  \<close>
\<close>

definition name :: "sys \<Rightarrow> pyval \<Rightarrow> exn + string" where
  "name sy x = (let y = str x in if length y > 40 then sha1_hexdigest sy y else Inr y)"

text \<open>
  \<open>name(a) for a in args\<close>, and \<open>name(k) + '.' + name(v) for k,v in ...\<close>: the
  renderings in order, or the first exception.
\<close>

fun names :: "sys \<Rightarrow> pyval list \<Rightarrow> exn + string list" where
  "names sy [] = Inr []"
| "names sy (a # as) =
     (case name sy a of
        Inl e \<Rightarrow> Inl e
      | Inr y \<Rightarrow> (case names sy as of Inl e \<Rightarrow> Inl e | Inr ys \<Rightarrow> Inr (y # ys)))"

fun pairs :: "sys \<Rightarrow> (string \<times> pyval) list \<Rightarrow> exn + string list" where
  "pairs sy [] = Inr []"
| "pairs sy ((k, v) # kw) =
     (case name sy (PStr k) of
        Inl e \<Rightarrow> Inl e
      | Inr a \<Rightarrow>
          (case name sy v of
             Inl e \<Rightarrow> Inl e
           | Inr b \<Rightarrow>
               (case pairs sy kw of
                  Inl e \<Rightarrow> Inl e
                | Inr ps \<Rightarrow> Inr ((a @ ''.'' @ b) # ps))))"

text \<open>
  What \<open>cachable\<close> and \<open>deco\<close> fix for one decorated function: the arguments of
  the decorator, the group and mode read from the cache directory, and the function with
  its module and name. The function is deterministic: it returns a value or raises.
  Keyword arguments are an association list in the iteration order of the dictionary
  (\<open>iteritems(kwds)\<close>).
\<close>

type_synonym kwds = "(string \<times> pyval) list"

record deco =
  cache_dir :: string
  version :: "pyval option"
  keepweakref :: bool
  ignore :: "string set"
  gid :: "int option"
  mode :: "int option"
  func_module :: string
  func_name :: string
  func :: "pyval list \<Rightarrow> kwds \<Rightarrow> exn + pyval"

text \<open>
  \<^verbatim>\<open>
  cache_fn = cache_dir + "/" + func.__module__ + "." + func.__name__ + "_"
  if version is not None:
      cache_fn += _format_filename("ver" + str(version) + "_")
  \<close>
\<close>

definition cache_fn :: "deco \<Rightarrow> string" where
  "cache_fn d =
     (let c = cache_dir d @ ''/'' @ func_module d @ ''.'' @ func_name d @ ''_''
      in case version d of
           None \<Rightarrow> c
         | Some v \<Rightarrow> c @ format_filename (''ver'' @ str v @ ''_''))"

text \<open>
  \<^verbatim>\<open>
  fn = cache_fn + _format_filename(
      '_'.join(name(a) for a in args) + '_' +
      '_'.join(name(k) + '.' + name(v)
               for k,v in iteritems(kwds)
               if k not in ignore) +
      '.pickle'
  )
  \<close>
\<close>

definition kwd_pairs :: "sys \<Rightarrow> deco \<Rightarrow> kwds \<Rightarrow> exn + string list" where
  "kwd_pairs sy d kw = pairs sy (filter (\<lambda>(k, v). k \<notin> ignore d) kw)"

definition cache_key :: "sys \<Rightarrow> deco \<Rightarrow> pyval list \<Rightarrow> kwds \<Rightarrow> exn + string" where
  "cache_key sy d args kw =
     (case names sy args of
        Inl e \<Rightarrow> Inl e
      | Inr as \<Rightarrow>
          (case kwd_pairs sy d kw of
             Inl e \<Rightarrow> Inl e
           | Inr ps \<Rightarrow>
               Inr (format_filename (join ''_'' as @ ''_'' @ join ''_'' ps @ ''.pickle''))))"

definition filename :: "sys \<Rightarrow> deco \<Rightarrow> pyval list \<Rightarrow> kwds \<Rightarrow> exn + string" where
  "filename sy d args kw =
     (case cache_key sy d args kw of
        Inl e \<Rightarrow> Inl e
      | Inr k \<Rightarrow> Inr (cache_fn d @ k))"

section \<open>The directory policy\<close>

text \<open>
  \<^verbatim>\<open>
  if not os.path.isdir(cache_dir):
      os.mkdir(cache_dir)
      gid = None
      mode = None
  else:
      st = os.stat(cache_dir)
      gid = st.st_gid
      mode = stat.S_IMODE(st.st_mode) & ~(stat.S_IXUSR | stat.S_IXGRP | stat.S_IXOTH)
  \<close>
  The directories are a map from path to \<open>os.stat\<close> result. \<open>cachable\<close> gives
  the directories as it leaves them and the closure of the decorated function.
  (\<open>verbose\<close> only switches the timer's output on standard output, which is not
  modelled.)
\<close>

definition S_IMODE :: "int \<Rightarrow> int" where
  "S_IMODE m = m AND 4095"

definition S_IXUSR :: int where "S_IXUSR = 64"
definition S_IXGRP :: int where "S_IXGRP = 8"
definition S_IXOTH :: int where "S_IXOTH = 1"

definition dir_mask :: "int \<Rightarrow> int" where
  "dir_mask m = S_IMODE m AND NOT (S_IXUSR OR S_IXGRP OR S_IXOTH)"

definition cachable ::
  "sys \<Rightarrow> (string \<rightharpoonup> stat_result) \<Rightarrow> (pyval list \<Rightarrow> kwds \<Rightarrow> exn + pyval) \<Rightarrow> string \<Rightarrow> string
    \<Rightarrow> pyval option \<Rightarrow> string \<Rightarrow> bool \<Rightarrow> string set
    \<Rightarrow> exn + ((string \<rightharpoonup> stat_result) \<times> deco)" where
  "cachable sy dirs f fmod fname ver cdir kwr ign =
     (case dirs cdir of
        None \<Rightarrow>
          (case mkdir_fault sy cdir of
             Some e \<Rightarrow> Inl e
           | None \<Rightarrow>
               Inr (dirs(cdir \<mapsto> \<lparr>st_gid = default_gid sy, st_mode = default_dir_mode sy\<rparr>),
                    \<lparr>cache_dir = cdir, version = ver, keepweakref = kwr, ignore = ign,
                     gid = None, mode = None,
                     func_module = fmod, func_name = fname, func = f\<rparr>))
      | Some st \<Rightarrow>
          Inr (dirs,
               \<lparr>cache_dir = cdir, version = ver, keepweakref = kwr, ignore = ign,
                gid = Some (st_gid st), mode = Some (dir_mask (st_mode st)),
                func_module = fmod, func_name = fname, func = f\<rparr>))"

section \<open>The cache store and the wrapper\<close>

text \<open>
  The state a call reads and changes: the files, the \<open>WeakValueDictionary\<close> of the
  decorated function (\<open>cache\<close>), and a log of what the call did that its result
  does not show: the warnings and the invocations of the wrapped function.
\<close>

datatype event = Warned string | Called "pyval list" kwds

record state =
  files :: "string \<rightharpoonup> cfile"
  cache :: "string \<rightharpoonup> pyval"
  log :: "event list"

text \<open>
  \<^verbatim>\<open>
  except Exception as e:
      warn("Couldn't unpickle from %s: %s" % (fn, e.args[0]))
  \<close>
  and the same with \<open>"Couldn't pickle to %s: %s"\<close>. \<open>e.args[0]\<close> raises
  \<open>IndexError\<close> inside the handler when the exception has no arguments; nothing
  catches that one.
\<close>

definition warn_handler :: "string \<Rightarrow> string \<Rightarrow> exn \<Rightarrow> state \<Rightarrow> exn option \<times> state" where
  "warn_handler what fn e s =
     (case exn_args e of
        [] \<Rightarrow> (Some IndexError, s)
      | a # _ \<Rightarrow> (None, s\<lparr>log := log s @ [Warned (what @ fn @ '': '' @ str a)]\<rparr>))"

text \<open>
  \<^verbatim>\<open>
  try:
      with open(fn, 'rb') as f:
          with optional(verbose, timer(...)):
              ret = cPickle.load(f)
  except Exception as e:
      warn("Couldn't unpickle from %s: %s" % (fn, e.args[0]))
  \<close>
  \<open>ret\<close> is \<open>None\<close> before, and stays so when the handler runs.
\<close>

definition ENOENT :: exn where
  "ENOENT = Exn ''IOError'' [PInt 2, PStr ''No such file or directory'']"

definition read_bytes :: "sys \<Rightarrow> string \<Rightarrow> state \<Rightarrow> exn + pyval" where
  "read_bytes sy fn s =
     (case open_rb_fault sy fn of
        Some e \<Rightarrow> Inl e
      | None \<Rightarrow>
          (case files s fn of
             None \<Rightarrow> Inl ENOENT
           | Some f \<Rightarrow> pickle_load sy (fdata f)))"

definition try_read :: "sys \<Rightarrow> string \<Rightarrow> state \<Rightarrow> (exn + pyval) \<times> state" where
  "try_read sy fn s =
     (case read_bytes sy fn s of
        Inr v \<Rightarrow> (Inr v, s)
      | Inl e \<Rightarrow>
          (case warn_handler ''Couldn't unpickle from '' fn e s of
             (Some e', s') \<Rightarrow> (Inl e', s')
           | (None, s') \<Rightarrow> (Inr PNone, s')))"

text \<open>
  \<^verbatim>\<open>
  with open(fn, 'wb') as f:
      if gid: os.fchown(f.fileno(), -1, gid)
      if mode: os.fchmod(f.fileno(), mode)
      cPickle.dump(ret, f, protocol=-1)
  \<close>
  \<open>open(fn, 'wb')\<close> truncates the file or creates it. \<open>if gid\<close> is false for
  \<open>None\<close> and for \<open>0\<close>. The result is the files as the block leaves them and
  the exception it raised, if any.
\<close>

definition chown_step :: "sys \<Rightarrow> deco \<Rightarrow> string \<Rightarrow> cfile \<Rightarrow> exn + cfile" where
  "chown_step sy d fn f =
     (case gid d of
        None \<Rightarrow> Inr f
      | Some g \<Rightarrow>
          if g = 0 then Inr f
          else (case fchown_fault sy fn g of
                  Some e \<Rightarrow> Inl e
                | None \<Rightarrow> Inr (f\<lparr>fgid := g\<rparr>)))"

definition chmod_step :: "sys \<Rightarrow> deco \<Rightarrow> string \<Rightarrow> cfile \<Rightarrow> exn + cfile" where
  "chmod_step sy d fn f =
     (case mode d of
        None \<Rightarrow> Inr f
      | Some m \<Rightarrow>
          if m = 0 then Inr f
          else (case fchmod_fault sy fn m of
                  Some e \<Rightarrow> Inl e
                | None \<Rightarrow> Inr (f\<lparr>fmode := m\<rparr>)))"

definition open_wb :: "sys \<Rightarrow> string \<Rightarrow> (string \<rightharpoonup> cfile) \<Rightarrow> cfile" where
  "open_wb sy fn fs =
     (case fs fn of
        None \<Rightarrow> \<lparr>fdata = [], fgid = default_gid sy, fmode = default_mode sy\<rparr>
      | Some f \<Rightarrow> f\<lparr>fdata := []\<rparr>)"

definition write_file ::
  "sys \<Rightarrow> deco \<Rightarrow> string \<Rightarrow> pyval \<Rightarrow> (string \<rightharpoonup> cfile) \<Rightarrow> (string \<rightharpoonup> cfile) \<times> exn option" where
  "write_file sy d fn ret fs =
     (case open_wb_fault sy fn of
        Some e \<Rightarrow> (fs, Some e)
      | None \<Rightarrow>
          (let f0 = open_wb sy fn fs
           in case chown_step sy d fn f0 of
                Inl e \<Rightarrow> (fs(fn \<mapsto> f0), Some e)
              | Inr f1 \<Rightarrow>
                  (case chmod_step sy d fn f1 of
                     Inl e \<Rightarrow> (fs(fn \<mapsto> f1), Some e)
                   | Inr f2 \<Rightarrow>
                       (case pickle_dump sy ret of
                          Inl (e, part) \<Rightarrow> (fs(fn \<mapsto> f2\<lparr>fdata := part\<rparr>), Some e)
                        | Inr b \<Rightarrow> (fs(fn \<mapsto> f2\<lparr>fdata := b\<rparr>), None)))))"

text \<open>
  \<^verbatim>\<open>
  ret = func(*args, **kwds)
  try:
      ... the write ...
  except Exception as e:
      warn("Couldn't pickle to %s: %s" % (fn, e.args[0]))
  \<close>
  An exception of the wrapped function is not caught.
\<close>

definition compute ::
  "sys \<Rightarrow> deco \<Rightarrow> string \<Rightarrow> pyval list \<Rightarrow> kwds \<Rightarrow> state \<Rightarrow> (exn + pyval) \<times> state" where
  "compute sy d fn args kw s =
     (let s1 = s\<lparr>log := log s @ [Called args kw]\<rparr>
      in case func d args kw of
           Inl e \<Rightarrow> (Inl e, s1)
         | Inr ret \<Rightarrow>
             (case write_file sy d fn ret (files s1) of
                (fs, None) \<Rightarrow> (Inr ret, s1\<lparr>files := fs\<rparr>)
              | (fs, Some e) \<Rightarrow>
                  (case warn_handler ''Couldn't pickle to '' fn e (s1\<lparr>files := fs\<rparr>) of
                     (Some e', s2) \<Rightarrow> (Inl e', s2)
                   | (None, s2) \<Rightarrow> (Inr ret, s2))))"

text \<open>
  \<^verbatim>\<open>
  if keepweakref and ret is not None:
      cache[fn] = ret
  return ret
  \<close>
  The assignment raises \<open>TypeError\<close> for a value that cannot be weakly referenced.
\<close>

definition store_weak :: "deco \<Rightarrow> string \<Rightarrow> pyval \<Rightarrow> state \<Rightarrow> (exn + pyval) \<times> state" where
  "store_weak d fn ret s =
     (if keepweakref d \<and> ret \<noteq> PNone then
        (if weakrefable ret then (Inr ret, s\<lparr>cache := (cache s)(fn \<mapsto> ret)\<rparr>)
         else (Inl TypeError, s))
      else (Inr ret, s))"

text \<open>
  \<open>kwds.pop('recompute', False)\<close>: the value under the key, \<open>False\<close> without it,
  and the dictionary without the key.
\<close>

definition pop_recompute :: "kwds \<Rightarrow> pyval \<times> kwds" where
  "pop_recompute kw =
     (case map_of kw ''recompute'' of
        None \<Rightarrow> (PBool False, kw)
      | Some r \<Rightarrow> (r, filter (\<lambda>(k, v). k \<noteq> ''recompute'') kw))"

text \<open>
  \<^verbatim>\<open>
  def wrapper(*args, **kwds):
      recompute = kwds.pop('recompute', False)
      fn = cache_fn + _format_filename(...)    # an exception of name() is not caught
      ret = None
      if not recompute and keepweakref and fn in cache:
          return cache[fn]
      elif not recompute and os.path.exists(fn):
          ... the read ...
      if ret is None:
          ... the computation and the write ...
      if keepweakref and ret is not None:
          cache[fn] = ret
      return ret
  \<close>
\<close>

definition lookup ::
  "sys \<Rightarrow> pyval \<Rightarrow> string \<Rightarrow> state \<Rightarrow> (exn + pyval) \<times> state" where
  "lookup sy recompute fn s =
     (if \<not> truthy recompute \<and> fn \<in> dom (files s) then try_read sy fn s
      else (Inr PNone, s))"

definition finish ::
  "sys \<Rightarrow> deco \<Rightarrow> string \<Rightarrow> pyval list \<Rightarrow> kwds \<Rightarrow> pyval \<Rightarrow> state \<Rightarrow> (exn + pyval) \<times> state" where
  "finish sy d fn args kw ret s =
     (case (if ret = PNone then compute sy d fn args kw s else (Inr ret, s)) of
        (Inl e, s2) \<Rightarrow> (Inl e, s2)
      | (Inr ret', s2) \<Rightarrow> store_weak d fn ret' s2)"

definition wrapper ::
  "sys \<Rightarrow> deco \<Rightarrow> pyval list \<Rightarrow> kwds \<Rightarrow> state \<Rightarrow> (exn + pyval) \<times> state" where
  "wrapper sy d args kwds0 s =
     (case pop_recompute kwds0 of
        (recompute, kw) \<Rightarrow>
          (case filename sy d args kw of
             Inl e \<Rightarrow> (Inl e, s)
           | Inr fn \<Rightarrow>
               (case (if \<not> truthy recompute \<and> keepweakref d then cache s fn else None) of
                  Some v \<Rightarrow> (Inr v, s)
                | None \<Rightarrow>
                    (case lookup sy recompute fn s of
                       (Inl e, s1) \<Rightarrow> (Inl e, s1)
                     | (Inr ret, s1) \<Rightarrow> finish sy d fn args kw ret s1))))"

text \<open>How often the wrapped function has been invoked.\<close>

fun is_call :: "event \<Rightarrow> bool" where
  "is_call (Called a k) = True"
| "is_call (Warned w) = False"

definition calls :: "state \<Rightarrow> nat" where
  "calls s = length (filter is_call (log s))"

section \<open>The file name as the specification words it\<close>

text \<open>
  This definition follows the specification, not the code:
  \<open><cacheRoot>/<moduleOrFunctionQualifiedName>._[ver<tag>_]<sanitized-positional-args>_<sanitized-kwarg-pairs>.cache\<close>.
  It is here to be compared with \<open>filename\<close>.
\<close>

definition spec_filename :: "sys \<Rightarrow> deco \<Rightarrow> pyval list \<Rightarrow> kwds \<Rightarrow> exn + string" where
  "spec_filename sy d args kw =
     (case names sy args of
        Inl e \<Rightarrow> Inl e
      | Inr as \<Rightarrow>
          (case kwd_pairs sy d kw of
             Inl e \<Rightarrow> Inl e
           | Inr ps \<Rightarrow>
               Inr (cache_dir d @ ''/'' @ func_module d @ ''.'' @ func_name d @ ''._''
                    @ (case version d of
                         None \<Rightarrow> []
                       | Some v \<Rightarrow> ''ver'' @ format_filename (str v) @ ''_'')
                    @ join ''_'' (map format_filename as) @ ''_''
                    @ join ''_'' (map format_filename ps)
                    @ ''.cache'')))"

section \<open>An example system\<close>

text \<open>
  A small concrete world on which the definitions run: a pickler for integers and
  \<open>None\<close> that raises on other values (for an object, an exception without
  arguments, as a \<open>__getstate__\<close> that does \<open>raise NotImplementedError\<close> gives),
  an unpickler that raises \<open>EOFError\<close> without arguments on an empty file, as
  \<open>cPickle.load\<close> does, and system calls that succeed. The function of the
  specification's scenario, \<open>double(n)\<close>, is decorated with cache root \<open>/tmp/c\<close>.
\<close>

definition demo_load :: "string \<Rightarrow> exn + pyval" where
  "demo_load b =
     (if b = ''I42'' then Inr (PInt 42)
      else if b = ''I7'' then Inr (PInt 7)
      else if b = ''N'' then Inr PNone
      else if b = [] then Inl (Exn ''EOFError'' [])
      else Inl (Exn ''UnpicklingError'' [PStr ''invalid load key'']))"

definition demo_dump :: "pyval \<Rightarrow> (exn \<times> string) + string" where
  "demo_dump v =
     (case v of
        PInt i \<Rightarrow> Inr (''I'' @ str v)
      | PNone \<Rightarrow> Inr ''N''
      | PObj t w b \<Rightarrow> Inl (Exn ''NotImplementedError'' [], [])
      | _ \<Rightarrow> Inl (Exn ''PicklingError'' [PStr ''cannot pickle''], []))"

definition demo_sys :: sys where
  "demo_sys =
     \<lparr>sha1_hexdigest = (\<lambda>s. Inr ''da39a3ee5e6b4b0d3255bfef95601890afd80709''),
      pickle_load = demo_load, pickle_dump = demo_dump,
      open_rb_fault = (\<lambda>p. None), open_wb_fault = (\<lambda>p. None),
      fchown_fault = (\<lambda>p g. None), fchmod_fault = (\<lambda>p m. None),
      mkdir_fault = (\<lambda>p. None),
      default_gid = 1000, default_mode = 420, default_dir_mode = 493\<rparr>"

text \<open>The same system on Python 3, where \<open>sha1\<close> refuses a \<open>str\<close>.\<close>

definition py3_sys :: sys where
  "py3_sys =
     demo_sys\<lparr>sha1_hexdigest :=
       (\<lambda>s. Inl (Exn ''TypeError'' [PStr ''Unicode-objects must be encoded before hashing'']))\<rparr>"

text \<open>The same system with a cache directory that cannot be written to.\<close>

definition readonly_sys :: sys where
  "readonly_sys =
     demo_sys\<lparr>open_wb_fault := (\<lambda>p. Some (Exn ''IOError'' [PInt 13, PStr ''Permission denied'']))\<rparr>"

definition double :: "pyval list \<Rightarrow> kwds \<Rightarrow> exn + pyval" where
  "double args kw =
     (case args of
        [PInt n] \<Rightarrow> Inr (PInt (2 * n))
      | _ \<Rightarrow> Inl (Exn ''TypeError'' [PStr ''double() takes exactly 1 argument'']))"

definition double_deco :: deco where
  "double_deco =
     \<lparr>cache_dir = ''/tmp/c'', version = None, keepweakref = False, ignore = {},
      gid = None, mode = None, func_module = ''m'', func_name = ''double'', func = double\<rparr>"

text \<open>The same function, decorated with \<open>ignore = {'verbose'}\<close>.\<close>

definition quiet_deco :: deco where
  "quiet_deco = double_deco\<lparr>ignore := {''verbose''}\<rparr>"

text \<open>
  A function that returns \<open>None\<close>, and one that returns an object; both keep weak
  references.
\<close>

definition nothing_deco :: deco where
  "nothing_deco =
     double_deco\<lparr>func_name := ''nothing'', keepweakref := True,
                 func := (\<lambda>args kw. Inr PNone)\<rparr>"

definition frame_deco :: deco where
  "frame_deco =
     double_deco\<lparr>func_name := ''frame'', keepweakref := True,
                 func := (\<lambda>args kw. Inr (PObj ''<frame>'' True True))\<rparr>"

definition double_fn :: string where
  "double_fn = ''/tmp/c/m.double_21_.pickle''"

definition empty_state :: state where
  "empty_state = \<lparr>files = Map.empty, cache = Map.empty, log = []\<rparr>"

text \<open>A state whose cache file for \<open>double(21)\<close> holds the given bytes.\<close>

definition disk_state :: "string \<Rightarrow> state" where
  "disk_state b =
     \<lparr>files = [double_fn \<mapsto> \<lparr>fdata = b, fgid = 1000, fmode = 420\<rparr>],
      cache = Map.empty, log = []\<rparr>"

text \<open>A cache directory that belongs to group 0, with mode \<open>drwxr-xr-x\<close>.\<close>

definition root_dirs :: "string \<rightharpoonup> stat_result" where
  "root_dirs = [''/tmp/c'' \<mapsto> \<lparr>st_gid = 0, st_mode = 16877\<rparr>]"

definition staff_dirs :: "string \<rightharpoonup> stat_result" where
  "staff_dirs = [''/tmp/c'' \<mapsto> \<lparr>st_gid = 50, st_mode = 16893\<rparr>]"

text \<open>
  What \<open>cachable\<close> gives for \<open>double\<close> on each of these directories.
\<close>

definition root_deco :: deco where
  "root_deco = double_deco\<lparr>gid := Some 0, mode := Some 420\<rparr>"

definition staff_deco :: deco where
  "staff_deco = double_deco\<lparr>gid := Some 50, mode := Some 436\<rparr>"


section \<open>Evaluating the definitions\<close>

lemmas key_defs =
  filename_def cache_fn_def cache_key_def kwd_pairs_def name_def format_filename_def
  spec_filename_def
  replace_space_def valid_chars_def ascii_letters_def digits_def str_nat.simps

lemmas store_defs =
  wrapper_def pop_recompute_def lookup_def try_read_def read_bytes_def warn_handler_def
  finish_def compute_def write_file_def open_wb_def chown_step_def chmod_step_def
  store_weak_def

lemmas demo_defs =
  demo_sys_def py3_sys_def readonly_sys_def demo_load_def demo_dump_def double_def double_deco_def
  quiet_deco_def nothing_deco_def frame_deco_def double_fn_def empty_state_def
  disk_state_def root_deco_def staff_deco_def root_dirs_def staff_dirs_def

section \<open>The key encoder: sanitization and the layout of the file name\<close>

lemma format_filename_append:
  "format_filename (a @ b) = format_filename a @ format_filename b"
  by (simp add: format_filename_def replace_space_def)

lemma format_filename_Nil: "format_filename [] = []"
  by (simp add: format_filename_def replace_space_def)

lemma format_filename_Cons:
  "format_filename (c # s) =
     (if c \<in> valid_chars then (if c = CHR '' '' then CHR ''_'' else c) # format_filename s
      else format_filename s)"
  by (simp add: format_filename_def replace_space_def)

lemma format_filename_underscore: "format_filename ''_'' = ''_''"
  by (simp add: format_filename_def replace_space_def valid_chars_def)

lemma format_filename_pickle: "format_filename ''.pickle'' = ''.pickle''"
  by (simp add: format_filename_def replace_space_def valid_chars_def ascii_letters_def)

lemma format_filename_underscore_Cons:
  "format_filename (CHR ''_'' # s) = CHR ''_'' # format_filename s"
  by (simp add: format_filename_Cons valid_chars_def)

lemma format_filename_dot_Cons:
  "format_filename (CHR ''.'' # s) = CHR ''.'' # format_filename s"
  by (simp add: format_filename_Cons valid_chars_def)

lemma format_filename_ver_Cons:
  "format_filename (CHR ''v'' # CHR ''e'' # CHR ''r'' # s) =
     CHR ''v'' # CHR ''e'' # CHR ''r'' # format_filename s"
  by (simp add: format_filename_Cons valid_chars_def ascii_letters_def)

lemma format_filename_join_sep:
  "format_filename sep = sep \<Longrightarrow>
   format_filename (join sep xs) = join sep (map format_filename xs)"
  by (induction sep xs rule: join.induct) (simp_all add: format_filename_Nil format_filename_append)

lemma format_filename_join:
  "format_filename (join ''_'' xs) = join ''_'' (map format_filename xs)"
  by (rule format_filename_join_sep) (rule format_filename_underscore)

lemma format_filename_chars:
  "set (format_filename s) \<subseteq> set (''-_.()'' @ ascii_letters @ digits)"
  by (auto simp: format_filename_def replace_space_def valid_chars_def)

lemma cache_fn_layout:
  "cache_fn d =
     cache_dir d @ ''/'' @ func_module d @ ''.'' @ func_name d @ ''_''
     @ (case version d of None \<Rightarrow> [] | Some v \<Rightarrow> ''ver'' @ format_filename (str v) @ ''_'')"
  by (simp add: cache_fn_def format_filename_ver_Cons format_filename_append
      format_filename_underscore split: option.split)

lemma name_str: "str a = str b \<Longrightarrow> name sy a = name sy b"
  by (simp add: name_def)

lemma names_cong: "map str as = map str bs \<Longrightarrow> names sy as = names sy bs"
proof (induction as arbitrary: bs)
  case Nil
  then show ?case by simp
next
  case (Cons a as)
  then obtain b bs' where bs: "bs = b # bs'" "str a = str b" "map str as = map str bs'"
    by (cases bs) auto
  with Cons.IH [of bs'] show ?case by (simp add: name_str [of a b] cong: sum.case_cong)
qed

lemma pairs_cong:
  "map (\<lambda>(k, v). (k, str v)) xs = map (\<lambda>(k, v). (k, str v)) ys \<Longrightarrow> pairs sy xs = pairs sy ys"
proof (induction xs arbitrary: ys)
  case Nil
  then show ?case by simp
next
  case (Cons x xs)
  obtain k v where x: "x = (k, v)" by (cases x)
  from Cons.prems x obtain v' ys' where ys: "ys = (k, v') # ys'" "str v = str v'"
      "map (\<lambda>(k, v). (k, str v)) xs = map (\<lambda>(k, v). (k, str v)) ys'"
    by (cases ys) auto
  with Cons.IH [of ys'] x show ?case by (simp add: name_str [of v v'] cong: sum.case_cong)
qed

lemma names_ok: "map (name sy) args = map Inr as \<Longrightarrow> names sy args = Inr as"
proof (induction args arbitrary: as)
  case Nil
  then show ?case by simp
next
  case (Cons a args)
  then obtain y ys where "as = y # ys" "name sy a = Inr y" "map (name sy) args = map Inr ys"
    by (cases as) auto
  with Cons.IH [of ys] show ?case by simp
qed

lemma pairs_ok:
  "map (\<lambda>(k, v). (name sy (PStr k), name sy v)) kw = map (\<lambda>(a, b). (Inr a, Inr b)) qs \<Longrightarrow>
   pairs sy kw = Inr (map (\<lambda>(a, b). a @ ''.'' @ b) qs)"
proof (induction kw arbitrary: qs)
  case Nil
  then show ?case by simp
next
  case (Cons x kw)
  obtain k v where x: "x = (k, v)" by (cases x)
  from Cons.prems x obtain a b qs' where qs: "qs = (a, b) # qs'"
      "name sy (PStr k) = Inr a" "name sy v = Inr b"
      "map (\<lambda>(k, v). (name sy (PStr k), name sy v)) kw = map (\<lambda>(a, b). (Inr a, Inr b)) qs'"
    by (cases qs) auto
  with Cons.IH [of qs'] x show ?case by simp
qed

lemma pairs_sanitized:
  "map format_filename (map (\<lambda>(a, b). a @ ''.'' @ b) qs) =
     map (\<lambda>(a, b). format_filename a @ ''.'' @ format_filename b) qs"
  by (simp add: format_filename_append format_filename_dot_Cons split_def comp_def)

lemma key_sanitized:
  "format_filename (join ''_'' as @ ''_'' @ join ''_'' ps @ ''.pickle'') =
     join ''_'' (map format_filename as) @ ''_'' @ join ''_'' (map format_filename ps) @ ''.pickle''"
  by (simp add: format_filename_append format_filename_join
      format_filename_underscore_Cons format_filename_pickle)

text \<open>
  Claim C8, as the code has it. Let every rendering be obtained: \<open>as\<close> are the
  renderings of the positional arguments and \<open>qs\<close> those of the keys and values of
  the keywords that are not ignored, where a rendering is the \<open>str()\<close> of the
  argument, or what the hash call gives for it when it is longer than 40 characters (the
  call raises when the hash call does). Then the path of the cache file is the cache
  root, \<open>/\<close>, the module, a dot, the function's name and an underscore (not
  \<open>._\<close>); then \<open>ver<tag>_\<close> when a version is given; the sanitized positional
  renderings joined by underscores; an underscore; the sanitized \<open>key.value\<close>
  pairs joined by underscores; and the extension \<open>.pickle\<close> (not \<open>.cache\<close>).
  Sanitization keeps the letters, the digits, the space and the characters \<open>-_.()\<close>,
  and turns each space into an underscore.
\<close>

theorem cache_path_layout:
  assumes "map (name sy) args = map Inr as"
    and "map (\<lambda>(k, v). (name sy (PStr k), name sy v)) (filter (\<lambda>(k, v). k \<notin> ignore d) kw) =
         map (\<lambda>(a, b). (Inr a, Inr b)) qs"
  shows "filename sy d args kw =
     Inr (cache_dir d @ ''/'' @ func_module d @ ''.'' @ func_name d @ ''_''
       @ (case version d of None \<Rightarrow> [] | Some v \<Rightarrow> ''ver'' @ format_filename (str v) @ ''_'')
       @ join ''_'' (map format_filename as) @ ''_''
       @ join ''_'' (map (\<lambda>(a, b). format_filename a @ ''.'' @ format_filename b) qs)
       @ ''.pickle'')
   \<and> name sy x = (if length (str x) > 40 then sha1_hexdigest sy (str x) else Inr (str x))
   \<and> format_filename t =
       map (\<lambda>c. if c = CHR '' '' then CHR ''_'' else c)
         (filter (\<lambda>c. c \<in> set ''-_.() abcdefghijklmnopqrstuvwxyzABCDEFGHIJKLMNOPQRSTUVWXYZ0123456789'') t)"
proof (intro conjI)
  have n: "names sy args = Inr as" using assms(1) by (rule names_ok)
  have p: "kwd_pairs sy d kw = Inr (map (\<lambda>(a, b). a @ ''.'' @ b) qs)"
    unfolding kwd_pairs_def using assms(2) by (rule pairs_ok)
  show "filename sy d args kw =
     Inr (cache_dir d @ ''/'' @ func_module d @ ''.'' @ func_name d @ ''_''
       @ (case version d of None \<Rightarrow> [] | Some v \<Rightarrow> ''ver'' @ format_filename (str v) @ ''_'')
       @ join ''_'' (map format_filename as) @ ''_''
       @ join ''_'' (map (\<lambda>(a, b). format_filename a @ ''.'' @ format_filename b) qs)
       @ ''.pickle'')"
  proof -
    have "filename sy d args kw =
        Inr (cache_fn d @ format_filename (join ''_'' as @ ''_''
          @ join ''_'' (map (\<lambda>(a, b). a @ ''.'' @ b) qs) @ ''.pickle''))"
      by (simp add: filename_def cache_key_def n p)
    then show ?thesis
      by (simp only: key_sanitized pairs_sanitized cache_fn_layout append_assoc)
  qed
  show "name sy x = (if length (str x) > 40 then sha1_hexdigest sy (str x) else Inr (str x))"
    by (simp add: name_def)
  show "format_filename t =
       map (\<lambda>c. if c = CHR '' '' then CHR ''_'' else c)
         (filter (\<lambda>c. c \<in> set ''-_.() abcdefghijklmnopqrstuvwxyzABCDEFGHIJKLMNOPQRSTUVWXYZ0123456789'') t)"
    by (simp add: format_filename_def replace_space_def valid_chars_def ascii_letters_def
        digits_def)
qed

theorem cache_path_layout_witness:
  "map (name demo_sys) [PInt 21] = map Inr [''21'']
   \<and> filename demo_sys double_deco [PInt 21] [(''n m'', PStr ''a/b'')] =
     Inr ''/tmp/c/m.double_21_n_m.ab.pickle''"
proof -
  have a: "map (name demo_sys) [PInt 21] = map Inr [''21'']"
    by (simp add: name_def str_nat.simps)
  have k: "map (\<lambda>(k, v). (name demo_sys (PStr k), name demo_sys v))
             (filter (\<lambda>(k, v). k \<notin> ignore double_deco) [(''n m'', PStr ''a/b'')]) =
           map (\<lambda>(a, b). (Inr a, Inr b)) [(''n m'', ''a/b'')]"
    by (simp add: name_def double_deco_def)
  have "filename demo_sys double_deco [PInt 21] [(''n m'', PStr ''a/b'')] =
     Inr (cache_dir double_deco @ ''/'' @ func_module double_deco @ ''.'' @ func_name double_deco @ ''_''
       @ (case version double_deco of None \<Rightarrow> [] | Some v \<Rightarrow> ''ver'' @ format_filename (str v) @ ''_'')
       @ join ''_'' (map format_filename [''21'']) @ ''_''
       @ join ''_'' (map (\<lambda>(a, b). format_filename a @ ''.'' @ format_filename b) [(''n m'', ''a/b'')])
       @ ''.pickle'')"
    using cache_path_layout [OF a k, of "PNone" "[]"] by (rule conjunct1)
  also have "\<dots> = Inr ''/tmp/c/m.double_21_n_m.ab.pickle''"
    by (simp add: double_deco_def format_filename_def
        replace_space_def valid_chars_def ascii_letters_def digits_def)
  finally show ?thesis using a by simp
qed

text \<open>
  At \<open>double(21)\<close> with cache root \<open>/tmp/c\<close> the specification's form of the path
  and the code's differ.
\<close>

theorem path_differs_from_spec:
  "filename demo_sys double_deco [PInt 21] [] = Inr ''/tmp/c/m.double_21_.pickle''
   \<and> spec_filename demo_sys double_deco [PInt 21] [] = Inr ''/tmp/c/m.double._21_.cache''
   \<and> filename demo_sys double_deco [PInt 21] [] \<noteq> spec_filename demo_sys double_deco [PInt 21] []"
  by (simp add: key_defs double_deco_def)

text \<open>
  Where \<open>sha1\<close> refuses a \<open>str\<close>, a call with an argument whose rendering is
  longer than 40 characters raises before anything is looked up.
\<close>

lemma long_argument_on_python3:
  "filename py3_sys double_deco [PStr ''0123456789012345678901234567890123456789x''] [] =
     Inl (Exn ''TypeError'' [PStr ''Unicode-objects must be encoded before hashing''])
   \<and> wrapper py3_sys double_deco [PStr ''0123456789012345678901234567890123456789x''] [] empty_state =
     (Inl (Exn ''TypeError'' [PStr ''Unicode-objects must be encoded before hashing'']), empty_state)"
  by (simp add: key_defs wrapper_def pop_recompute_def demo_defs)

section \<open>The key encoder: which calls share a key\<close>

text \<open>
  Claim C5, as the code has it. Two calls get the same cache file name when their
  positional arguments have the same \<open>str()\<close> renderings in call order and their
  keyword arguments that are not ignored have the same keys and renderings in the same
  iteration order. The pairs are rendered in iteration order; nothing sorts them.
\<close>

theorem same_renderings_same_key:
  assumes "map str args1 = map str args2"
    and "map (\<lambda>(k, v). (k, str v)) (filter (\<lambda>(k, v). k \<notin> ignore d) kw1) =
         map (\<lambda>(k, v). (k, str v)) (filter (\<lambda>(k, v). k \<notin> ignore d) kw2)"
  shows "filename sy d args1 kw1 = filename sy d args2 kw2"
proof -
  have "names sy args1 = names sy args2"
    using assms(1) by (rule names_cong)
  moreover have "kwd_pairs sy d kw1 = kwd_pairs sy d kw2"
    unfolding kwd_pairs_def using assms(2) by (rule pairs_cong)
  ultimately show ?thesis
    by (simp only: filename_def cache_key_def)
qed

theorem same_renderings_same_key_witness:
  "map str [PInt 21] = map str [PStr ''21'']
   \<and> filename demo_sys double_deco [PInt 21] [(''a'', PInt 1), (''b'', PBool True)] =
     filename demo_sys double_deco [PStr ''21''] [(''a'', PStr ''1''), (''b'', PStr ''True'')]"
  using same_renderings_same_key [of "[PInt 21]" "[PStr ''21'']" double_deco
      "[(''a'', PInt 1), (''b'', PBool True)]" "[(''a'', PStr ''1''), (''b'', PStr ''True'')]" demo_sys]
  by (simp add: double_deco_def str_nat.simps)

text \<open>
  The same keyword bindings in the other iteration order give another file name.
\<close>

theorem keyword_order_changes_key:
  "filename demo_sys double_deco [] [(''a'', PInt 1), (''b'', PInt 2)] = Inr ''/tmp/c/m.double__a.1_b.2.pickle''
   \<and> filename demo_sys double_deco [] [(''b'', PInt 2), (''a'', PInt 1)] = Inr ''/tmp/c/m.double__b.2_a.1.pickle''
   \<and> filename demo_sys double_deco [] [(''a'', PInt 1), (''b'', PInt 2)] \<noteq>
     filename demo_sys double_deco [] [(''b'', PInt 2), (''a'', PInt 1)]"
  by (simp add: key_defs double_deco_def)

lemma filter_keys_rebuild:
  assumes "distinct (map fst xs)"
  shows "filter (\<lambda>(k, v). P k) xs =
         map (\<lambda>k. (k, the (map_of xs k))) (filter P (map fst xs))"
proof -
  have "map (\<lambda>k. (k, the (map_of xs k))) (filter P (map fst xs)) =
        map (\<lambda>(k, v). (k, the (map_of xs k))) (filter (\<lambda>(k, v). P k) xs)"
    by (simp add: filter_map comp_def split_def)
  also have "\<dots> = map (\<lambda>p. p) (filter (\<lambda>(k, v). P k) xs)"
  proof (rule map_cong [OF refl])
    fix p assume "p \<in> set (filter (\<lambda>(k, v). P k) xs)"
    then have "p \<in> set xs" by simp
    with assms have "map_of xs (fst p) = Some (snd p)" by (cases p) simp
    then show "(\<lambda>(k, v). (k, the (map_of xs k))) p = p" by (cases p) simp
  qed
  finally show ?thesis by simp
qed

lemma agree_filter_eq:
  assumes d1: "distinct (map fst k1)" and d2: "distinct (map fst k2)"
    and agree: "\<forall>k. P k \<longrightarrow> map_of k1 k = map_of k2 k"
    and order: "filter P (map fst k1) = filter P (map fst k2)"
  shows "filter (\<lambda>(k, v). P k) k1 = filter (\<lambda>(k, v). P k) k2"
proof -
  have "map (\<lambda>k. (k, the (map_of k1 k))) (filter P (map fst k2)) =
        map (\<lambda>k. (k, the (map_of k2 k))) (filter P (map fst k2))"
    using agree by (intro map_cong [OF refl]) simp
  with order show ?thesis
    by (simp add: filter_keys_rebuild [OF d1] filter_keys_rebuild [OF d2])
qed

text \<open>
  Claim C6, as the code has it. Two keyword dictionaries that differ only in ignored
  keys (they bind every key that is not ignored to the same value, or both leave it out)
  and whose keys that are not ignored come in the same iteration order give the same
  cache file name, for every tuple of positional arguments. (A dictionary has each key
  once.)
\<close>

theorem ignored_keys_same_key:
  assumes "distinct (map fst k1)" and "distinct (map fst k2)"
    and "\<forall>k. k \<notin> ignore d \<longrightarrow> map_of k1 k = map_of k2 k"
    and "filter (\<lambda>k. k \<notin> ignore d) (map fst k1) = filter (\<lambda>k. k \<notin> ignore d) (map fst k2)"
  shows "filename sy d a k1 = filename sy d a k2"
proof -
  have "filter (\<lambda>(k, v). k \<notin> ignore d) k1 = filter (\<lambda>(k, v). k \<notin> ignore d) k2"
    using assms by (rule agree_filter_eq)
  then have "kwd_pairs sy d k1 = kwd_pairs sy d k2" by (simp only: kwd_pairs_def)
  then show ?thesis by (simp only: filename_def cache_key_def)
qed

theorem ignored_keys_same_key_witness:
  "distinct (map fst [(''a'', PInt 1), (''b'', PInt 2)])
   \<and> distinct (map fst [(''verbose'', PBool True), (''a'', PInt 1), (''b'', PInt 2)])
   \<and> filename demo_sys quiet_deco [PInt 21] [(''a'', PInt 1), (''b'', PInt 2)] =
     filename demo_sys quiet_deco [PInt 21] [(''verbose'', PBool True), (''a'', PInt 1), (''b'', PInt 2)]"
proof -
  have "filename demo_sys quiet_deco [PInt 21] [(''a'', PInt 1), (''b'', PInt 2)] =
     filename demo_sys quiet_deco [PInt 21] [(''verbose'', PBool True), (''a'', PInt 1), (''b'', PInt 2)]"
    by (rule ignored_keys_same_key) (simp_all add: quiet_deco_def double_deco_def)
  then show ?thesis by simp
qed

text \<open>
  Two dictionaries that differ only in the ignored key \<open>verbose\<close> (they are the
  same map on the other keys), but iterate \<open>a\<close> and \<open>b\<close> in different orders,
  give different file names.
\<close>

theorem ignored_key_with_other_order:
  "distinct (map fst [(''a'', PInt 1), (''b'', PInt 2)])
   \<and> distinct (map fst [(''verbose'', PBool True), (''b'', PInt 2), (''a'', PInt 1)])
   \<and> map_of [(''a'', PInt 1), (''b'', PInt 2)] |` (- ignore quiet_deco) =
     map_of [(''verbose'', PBool True), (''b'', PInt 2), (''a'', PInt 1)] |` (- ignore quiet_deco)
   \<and> filename demo_sys quiet_deco [PInt 21] [(''a'', PInt 1), (''b'', PInt 2)] =
       Inr ''/tmp/c/m.double_21_a.1_b.2.pickle''
   \<and> filename demo_sys quiet_deco [PInt 21] [(''verbose'', PBool True), (''b'', PInt 2), (''a'', PInt 1)] =
       Inr ''/tmp/c/m.double_21_b.2_a.1.pickle''"
proof -
  have "map_of [(''a'', PInt 1), (''b'', PInt 2)] |` (- ignore quiet_deco) =
     map_of [(''verbose'', PBool True), (''b'', PInt 2), (''a'', PInt 1)] |` (- ignore quiet_deco)"
    by (rule ext) (simp add: restrict_map_def quiet_deco_def double_deco_def)
  then show ?thesis
    by (simp add: key_defs quiet_deco_def double_deco_def)
qed

section \<open>What a call leaves unchanged\<close>

lemma warn_handler_cache: "warn_handler w fn e s = (r, s') \<Longrightarrow> cache s' = cache s \<and> files s' = files s"
  by (auto simp: warn_handler_def split: list.splits)

lemma warn_handler_calls: "warn_handler w fn e s = (r, s') \<Longrightarrow> calls s' = calls s"
  by (auto simp: warn_handler_def calls_def split: list.splits)

lemma try_read_frame:
  "try_read sy fn s = (r, s') \<Longrightarrow> cache s' = cache s \<and> files s' = files s \<and> calls s' = calls s"
  by (auto simp: try_read_def split: sum.splits prod.splits option.splits
      dest: warn_handler_cache warn_handler_calls)

lemma lookup_frame:
  "lookup sy rc fn s = (r, s') \<Longrightarrow> cache s' = cache s \<and> files s' = files s \<and> calls s' = calls s"
  by (auto simp: lookup_def split: if_splits dest: try_read_frame)

lemma compute_frame:
  "compute sy d fn args kw s = (r, s') \<Longrightarrow> cache s' = cache s \<and> calls s' = Suc (calls s)"
  by (auto simp: compute_def Let_def calls_def split: sum.splits prod.splits option.splits
      dest: warn_handler_cache warn_handler_calls)

lemma store_weak_cases:
  "store_weak d fn v s = (r, s') \<Longrightarrow>
     calls s' = calls s \<and> files s' = files s \<and>
     (cache s' = cache s \<or> (v \<noteq> PNone \<and> r = Inr v \<and> cache s' = (cache s)(fn \<mapsto> v)))"
  by (auto simp: store_weak_def calls_def split: if_splits)

lemma finish_cache:
  "finish sy d fn args kw ret s = (r, s') \<Longrightarrow>
     cache s' = cache s \<or> (\<exists>v. v \<noteq> PNone \<and> r = Inr v \<and> cache s' = (cache s)(fn \<mapsto> v))"
  by (auto simp: finish_def split: if_splits sum.splits prod.splits
      dest!: compute_frame store_weak_cases)


lemma wrapper_cache:
  assumes "wrapper sy d args kw0 s = (r, s')"
  shows "cache s' = cache s \<or> (\<exists>fn v. v \<noteq> PNone \<and> r = Inr v \<and> cache s' = (cache s)(fn \<mapsto> v))"
  using assms
  by (auto simp: wrapper_def split: prod.splits option.splits sum.splits
      dest!: lookup_frame finish_cache)


text \<open>
  Claim C10. A call never stores \<open>None\<close> in the weak-reference mapping: a call that
  returns \<open>None\<close> leaves the mapping as it was, and if no value of the mapping is
  \<open>None\<close> before a call, none is after it, whatever the call returns or raises.
\<close>

theorem weak_cache_never_holds_None:
  assumes "wrapper sy d args kw0 s = (r, s')"
  shows "(r = Inr PNone \<longrightarrow> cache s' = cache s) \<and>
         ((\<forall>k. cache s k \<noteq> Some PNone) \<longrightarrow> (\<forall>k. cache s' k \<noteq> Some PNone))"
proof -
  from wrapper_cache [OF assms]
  consider "cache s' = cache s"
    | fn v where "v \<noteq> PNone" "r = Inr v" "cache s' = (cache s)(fn \<mapsto> v)"
    by blast
  then show ?thesis
  proof cases
    case 1
    then show ?thesis by simp
  next
    case 2
    then show ?thesis by auto
  qed
qed

theorem weak_cache_never_holds_None_witness:
  "fst (wrapper demo_sys nothing_deco [] [] empty_state) = Inr PNone
   \<and> cache (snd (wrapper demo_sys nothing_deco [] [] empty_state)) = cache empty_state
   \<and> (\<forall>k. cache (snd (wrapper demo_sys nothing_deco [] [] empty_state)) k \<noteq> Some PNone)"
proof -
  have r: "fst (wrapper demo_sys nothing_deco [] [] empty_state) = Inr PNone"
    by (simp add: key_defs store_defs demo_defs)
  have inv: "\<forall>k. cache empty_state k \<noteq> Some PNone" by (simp add: empty_state_def)
  have "wrapper demo_sys nothing_deco [] [] empty_state =
      (fst (wrapper demo_sys nothing_deco [] [] empty_state),
       snd (wrapper demo_sys nothing_deco [] [] empty_state))" by simp
  from weak_cache_never_holds_None [OF this] r inv show ?thesis by simp
qed

section \<open>Repeated calls\<close>

lemma pop_recompute_absent:
  "map_of kw ''recompute'' = None \<Longrightarrow> pop_recompute kw = (PBool False, kw)"
  by (simp add: pop_recompute_def)














section \<open>The recompute flag\<close>

lemma pop_recompute_keys: "pop_recompute kw0 = (r, kw) \<Longrightarrow> ''recompute'' \<notin> fst ` set kw"
  by (auto simp: pop_recompute_def map_of_eq_None_iff split: option.splits)

lemma pop_recompute_default:
  "pop_recompute kw0 = (r, kw) \<Longrightarrow>
     r = (case map_of kw0 ''recompute'' of None \<Rightarrow> PBool False | Some x \<Rightarrow> x)"
  by (auto simp: pop_recompute_def split: option.splits)

lemma pop_recompute_idem: "pop_recompute kw0 = (r, kw) \<Longrightarrow> pop_recompute kw = (PBool False, kw)"
proof -
  assume "pop_recompute kw0 = (r, kw)"
  then have "''recompute'' \<notin> fst ` set kw" by (rule pop_recompute_keys)
  then have "map_of kw ''recompute'' = None" by (simp add: map_of_eq_None_iff)
  then show ?thesis by (rule pop_recompute_absent)
qed

lemma compute_written:
  assumes "func d args kw = Inr v" "write_file sy d fn v (files s) = (fs, None)"
  shows "compute sy d fn args kw s = (Inr v, s\<lparr>log := log s @ [Called args kw], files := fs\<rparr>)"
  using assms by (simp add: compute_def Let_def)

lemma write_file_ok:
  "write_file sy d fn v fs = (fs', None) \<Longrightarrow>
     \<exists>b f. pickle_dump sy v = Inr b \<and> fs' fn = Some f \<and> fdata f = b"
  by (auto simp: write_file_def Let_def split: option.splits sum.splits prod.splits)

lemma store_weak_log: "store_weak d fn v s = (r, s') \<Longrightarrow> log s' = log s \<and> files s' = files s"
  by (auto simp: store_weak_def split: if_splits)

lemma warn_handler_log:
  "warn_handler w fn e s = (r, s') \<Longrightarrow>
     \<exists>evs. log s' = log s @ evs \<and> set (filter is_call evs) \<subseteq> {}"
  by (auto simp: warn_handler_def split: list.splits)

lemma lookup_log:
  "lookup sy rc fn s = (r, s') \<Longrightarrow>
     \<exists>evs. log s' = log s @ evs \<and> set (filter is_call evs) \<subseteq> {}"
  by (auto simp: lookup_def try_read_def split: if_splits sum.splits prod.splits option.splits
      dest: warn_handler_log)

lemma compute_log:
  "compute sy d fn args kw s = (r, s') \<Longrightarrow>
     \<exists>evs. log s' = log s @ evs \<and> set (filter is_call evs) \<subseteq> {Called args kw}"
  by (auto simp: compute_def Let_def warn_handler_def
      split: sum.splits prod.splits option.splits list.splits)

lemma finish_log:
  assumes "finish sy d fn args kw ret s = (r, s')"
  shows "\<exists>evs. log s' = log s @ evs \<and> set (filter is_call evs) \<subseteq> {Called args kw}"
proof (cases "ret = PNone")
  case True
  obtain r1 s1 where c: "compute sy d fn args kw s = (r1, s1)"
    by (cases "compute sy d fn args kw s")
  from compute_log [OF c] obtain evs where
    l: "log s1 = log s @ evs" "set (filter is_call evs) \<subseteq> {Called args kw}" by blast
  have "log s' = log s1"
    using assms c True by (auto simp: finish_def split: sum.splits dest: store_weak_log)
  with l show ?thesis by auto
next
  case False
  with assms have "log s' = log s" by (auto simp: finish_def dest: store_weak_log)
  then show ?thesis by simp
qed

lemma wrapper_log:
  assumes pop: "pop_recompute kw0 = (r, kw)"
  shows "\<exists>evs. log (snd (wrapper sy d args kw0 s)) = log s @ evs
           \<and> set (filter is_call evs) \<subseteq> {Called args kw}"
proof (cases "filename sy d args kw")
  case (Inl e)
  then show ?thesis by (simp add: wrapper_def pop)
next
  case (Inr fn)
  show ?thesis
  proof (cases "if \<not> truthy r \<and> keepweakref d then cache s fn else None")
    case (Some v)
    then show ?thesis by (simp add: wrapper_def pop Inr)
  next
    case None
    obtain x s1 where l: "lookup sy r fn s = (x, s1)" by (cases "lookup sy r fn s")
    from lookup_log [OF l] obtain e1 where
      e1: "log s1 = log s @ e1" "set (filter is_call e1) \<subseteq> {}" by blast
    show ?thesis
    proof (cases x)
      case (Inl e)
      with e1 show ?thesis by (auto simp: wrapper_def pop Inr None l)
    next
      case ret: (Inr ret)
      obtain y s2 where f: "finish sy d fn args kw ret s1 = (y, s2)"
        by (cases "finish sy d fn args kw ret s1")
      from finish_log [OF f] obtain e2 where
        e2: "log s2 = log s1 @ e2" "set (filter is_call e2) \<subseteq> {Called args kw}" by blast
      have "log (snd (wrapper sy d args kw0 s)) = log s @ (e1 @ e2)"
        using e1 e2 by (simp add: wrapper_def pop Inr None l ret f)
      moreover have "set (filter is_call (e1 @ e2)) \<subseteq> {Called args kw}"
        using e1 e2 by auto
      ultimately show ?thesis by blast
    qed
  qed
qed

lemma finish_None_calls:
  "calls (snd (finish sy d fn args kw PNone s)) = Suc (calls s)"
proof -
  obtain r s' where f: "finish sy d fn args kw PNone s = (r, s')" by (cases "finish sy d fn args kw PNone s")
  then show ?thesis
    by (auto simp: finish_def split: sum.splits prod.splits dest!: compute_frame store_weak_cases)
qed

lemma finish_None_written:
  assumes "func d args kw = Inr v" "write_file sy d fn v (files s) = (fs, None)"
  shows "files (snd (finish sy d fn args kw PNone s)) = fs"
proof -
  obtain r s' where f: "store_weak d fn v (s\<lparr>log := log s @ [Called args kw], files := fs\<rparr>) = (r, s')"
    by (cases "store_weak d fn v (s\<lparr>log := log s @ [Called args kw], files := fs\<rparr>)")
  then have "files s' = fs" by (auto dest: store_weak_log)
  with f show ?thesis by (simp add: finish_def compute_written [OF assms])
qed

lemma finish_None_result:
  "fst (finish sy d fn args kw PNone s) = Inr v \<Longrightarrow> func d args kw = Inr v"
  by (auto simp: finish_def compute_def Let_def store_weak_def
      split: sum.splits prod.splits option.splits if_splits)

lemma falsy_flag_is_no_flag:
  assumes pop: "pop_recompute kw0 = (r, kw)" and off: "\<not> truthy r"
  shows "wrapper sy d args kw0 s = wrapper sy d args kw s"
proof -
  have l: "lookup sy r fn s = lookup sy (PBool False) fn s" for fn
    using off by (simp add: lookup_def)
  have c: "(if \<not> truthy r \<and> keepweakref d then cache s fn else None) =
           (if \<not> truthy (PBool False) \<and> keepweakref d then cache s fn else None)" for fn
    using off by simp
  show ?thesis
    by (simp only: wrapper_def pop pop_recompute_idem [OF pop] prod.case l c)
qed

lemma truthy_flag_recomputes:
  assumes pop: "pop_recompute kw0 = (r, kw)" and on: "truthy r"
    and fn: "filename sy d args kw = Inr fn"
  shows "wrapper sy d args kw0 s = finish sy d fn args kw PNone s"
  using on by (simp add: wrapper_def pop fn lookup_def)

text \<open>
  Claim C4, as the code has it. For every call, with \<open>r\<close> and \<open>kw\<close> what
  \<open>kwds.pop('recompute', False)\<close> gives and leaves: \<open>kw\<close> has no key
  \<open>recompute\<close>; \<open>r\<close> is the value of the flag, \<open>False\<close> when it is absent;
  every invocation of the wrapped function the call makes is with \<open>args\<close> and
  \<open>kw\<close>; and a call whose flag is false is the call without the flag. When the flag
  is true and the file name can be derived (from \<open>kw\<close>), the call is the computation
  path (\<open>finish\<close> from \<open>ret = None\<close>) on the state as it is, whatever the
  weak-reference mapping and the disk hold: neither is read, and the function is invoked
  exactly once. When the function then returns and the write raises nothing, the cache
  file holds the pickled result afterwards. (A write that fails is only warned of, and
  can leave the prior entry.)
\<close>

theorem recompute_bypasses_lookups:
  assumes pop: "pop_recompute kw0 = (r, kw)"
  shows "''recompute'' \<notin> fst ` set kw
       \<and> r = (case map_of kw0 ''recompute'' of None \<Rightarrow> PBool False | Some x \<Rightarrow> x)
       \<and> (\<exists>evs. log (snd (wrapper sy d args kw0 s)) = log s @ evs
              \<and> set (filter is_call evs) \<subseteq> {Called args kw})
       \<and> (\<not> truthy r \<longrightarrow> wrapper sy d args kw0 s = wrapper sy d args kw s)
       \<and> (truthy r \<longrightarrow>
            (\<forall>fn. filename sy d args kw = Inr fn \<longrightarrow>
               wrapper sy d args kw0 s = finish sy d fn args kw PNone s
               \<and> calls (snd (wrapper sy d args kw0 s)) = Suc (calls s)
               \<and> (\<forall>v fs. func d args kw = Inr v \<and> write_file sy d fn v (files s) = (fs, None) \<longrightarrow>
                     files (snd (wrapper sy d args kw0 s)) = fs
                     \<and> (\<exists>b f. pickle_dump sy v = Inr b \<and> fs fn = Some f \<and> fdata f = b))))"
proof (intro conjI impI allI)
  show "''recompute'' \<notin> fst ` set kw" using pop by (rule pop_recompute_keys)
  show "r = (case map_of kw0 ''recompute'' of None \<Rightarrow> PBool False | Some x \<Rightarrow> x)"
    using pop by (rule pop_recompute_default)
  show "\<exists>evs. log (snd (wrapper sy d args kw0 s)) = log s @ evs
              \<and> set (filter is_call evs) \<subseteq> {Called args kw}"
    using pop by (rule wrapper_log)
next
  assume "\<not> truthy r"
  with pop show "wrapper sy d args kw0 s = wrapper sy d args kw s"
    by (rule falsy_flag_is_no_flag)
next
  fix fn assume on: "truthy r" and fn: "filename sy d args kw = Inr fn"
  show w: "wrapper sy d args kw0 s = finish sy d fn args kw PNone s"
    using pop on fn by (rule truthy_flag_recomputes)
  show "calls (snd (wrapper sy d args kw0 s)) = Suc (calls s)"
    unfolding w by (rule finish_None_calls)
next
  fix fn v fs
  assume on: "truthy r" and fn: "filename sy d args kw = Inr fn"
    and fw: "func d args kw = Inr v \<and> write_file sy d fn v (files s) = (fs, None)"
  have w: "wrapper sy d args kw0 s = finish sy d fn args kw PNone s"
    using pop on fn by (rule truthy_flag_recomputes)
  from fw show "files (snd (wrapper sy d args kw0 s)) = fs"
    unfolding w by (simp add: finish_None_written)
  from fw show "\<exists>b f. pickle_dump sy v = Inr b \<and> fs fn = Some f \<and> fdata f = b"
    by (auto dest: write_file_ok)
qed

theorem recompute_bypasses_lookups_witness:
  "pop_recompute [(''recompute'', PBool True)] = (PBool True, [])
   \<and> wrapper demo_sys double_deco [PInt 21] [(''recompute'', PBool True)] (disk_state ''I7'') =
       finish demo_sys double_deco double_fn [PInt 21] [] PNone (disk_state ''I7'')
   \<and> calls (snd (wrapper demo_sys double_deco [PInt 21] [(''recompute'', PBool True)] (disk_state ''I7''))) = 1
   \<and> map_option fdata
        (files (snd (wrapper demo_sys double_deco [PInt 21] [(''recompute'', PBool True)] (disk_state ''I7'')))
           double_fn) = Some ''I42''"
proof -
  have pop: "pop_recompute [(''recompute'', PBool True)] = (PBool True, [])"
    by (simp add: pop_recompute_def)
  have fn: "filename demo_sys double_deco [PInt 21] [] = Inr double_fn"
    by (simp add: key_defs double_deco_def double_fn_def)
  have f: "func double_deco [PInt 21] [] = Inr (PInt 42)"
    by (simp add: demo_defs)
  have wr: "write_file demo_sys double_deco double_fn (PInt 42) (files (disk_state ''I7'')) =
      ([double_fn \<mapsto> \<lparr>fdata = ''I42'', fgid = 1000, fmode = 420\<rparr>], None)"
    by (simp add: write_file_def open_wb_def chown_step_def chmod_step_def demo_defs str_nat.simps)
  have c0: "calls (disk_state ''I7'') = 0" by (simp add: calls_def disk_state_def)
  have on: "truthy (PBool True)" by simp
  note t = recompute_bypasses_lookups [where s = "disk_state ''I7''" and sy = demo_sys
      and d = double_deco and args = "[PInt 21]", OF pop]
  let ?w = "wrapper demo_sys double_deco [PInt 21] [(''recompute'', PBool True)] (disk_state ''I7'')"
  from t on fn have a: "?w = finish demo_sys double_deco double_fn [PInt 21] [] PNone (disk_state ''I7'')"
    by blast
  from t on fn have "calls (snd ?w) = Suc (calls (disk_state ''I7''))" by blast
  with c0 have b: "calls (snd ?w) = 1" by simp
  from t on fn f wr have "files (snd ?w) = [double_fn \<mapsto> \<lparr>fdata = ''I42'', fgid = 1000, fmode = 420\<rparr>]"
    by blast
  then have c: "map_option fdata (files (snd ?w) double_fn) = Some ''I42''" by simp
  from pop a b c show ?thesis by blast
qed

text \<open>
  With a cache file that cannot be opened for writing, a call with
  \<open>recompute=True\<close> returns the new result \<open>42\<close> and warns; the prior entry
  stays on disk, and the next call without \<open>recompute\<close> serves it (\<open>7\<close>).
\<close>

theorem recompute_unwritable_keeps_entry:
  "wrapper readonly_sys double_deco [PInt 21] [(''recompute'', PBool True)] (disk_state ''I7'') =
     (Inr (PInt 42),
      disk_state ''I7''\<lparr>log := [Called [PInt 21] [],
         Warned ''Couldn't pickle to /tmp/c/m.double_21_.pickle: 13'']\<rparr>)
   \<and> wrapper readonly_sys double_deco [PInt 21] []
        (disk_state ''I7''\<lparr>log := [Called [PInt 21] [],
         Warned ''Couldn't pickle to /tmp/c/m.double_21_.pickle: 13'']\<rparr>) =
     (Inr (PInt 7),
      disk_state ''I7''\<lparr>log := [Called [PInt 21] [],
         Warned ''Couldn't pickle to /tmp/c/m.double_21_.pickle: 13'']\<rparr>)"
  by (simp add: key_defs store_defs demo_defs)

text \<open>
  A flag that is a false object (\<open>recompute=[]\<close>) does not bypass the cache.
\<close>

lemma falsy_object_flag_serves_cache:
  "wrapper demo_sys double_deco [PInt 21] [(''recompute'', PObj ''[]'' False False)] (disk_state ''I7'') =
     (Inr (PInt 7), disk_state ''I7'')"
  by (simp add: key_defs store_defs demo_defs)

section \<open>Reading the cache file\<close>

text \<open>
  Claim C7. Let a call whose \<open>recompute\<close> is false reach the disk read: the file
  name is derived, there is no hit in the weak-reference mapping, and the file exists.
  When the read gives \<open>None\<close> the call continues as the computation path from the
  state as it is; when the read fails (with an exception that has an argument) it
  continues as the same path, from the state with the warning added. That path invokes
  the wrapped function once, and a value it returns is the function's: a cached
  \<open>None\<close> is never served from disk.
\<close>

theorem cached_None_recomputed:
  assumes flag: "pop_recompute kw0 = (r, kw)" and off: "\<not> truthy r"
    and fn: "filename sy d args kw = Inr fn"
    and miss: "\<not> keepweakref d \<or> cache s fn = None"
    and ex: "fn \<in> dom (files s)"
  shows "(read_bytes sy fn s = Inr PNone \<longrightarrow>
            wrapper sy d args kw0 s = finish sy d fn args kw PNone s)
       \<and> (\<forall>e a as. read_bytes sy fn s = Inl e \<and> exn_args e = a # as \<longrightarrow>
            wrapper sy d args kw0 s =
              finish sy d fn args kw PNone
                (s\<lparr>log := log s @ [Warned (''Couldn't unpickle from '' @ fn @ '': '' @ str a)]\<rparr>))
       \<and> (\<forall>s0. calls (snd (finish sy d fn args kw PNone s0)) = Suc (calls s0))
       \<and> (\<forall>s0 v. fst (finish sy d fn args kw PNone s0) = Inr v \<longrightarrow> func d args kw = Inr v)"
proof -
  have c: "(if \<not> truthy r \<and> keepweakref d then cache s fn else None) = None"
    using miss by auto
  show ?thesis
    using off ex c
    by (auto simp: wrapper_def flag fn lookup_def try_read_def warn_handler_def
        finish_None_calls dest: finish_None_result)
qed

theorem cached_None_recomputed_witness:
  "read_bytes demo_sys double_fn (disk_state ''N'') = Inr PNone
   \<and> wrapper demo_sys double_deco [PInt 21] [] (disk_state ''N'') =
       finish demo_sys double_deco double_fn [PInt 21] [] PNone (disk_state ''N'')
   \<and> fst (finish demo_sys double_deco double_fn [PInt 21] [] PNone (disk_state ''N'')) = Inr (PInt 42)
   \<and> calls (snd (finish demo_sys double_deco double_fn [PInt 21] [] PNone (disk_state ''N''))) = 1"
proof -
  have flag: "pop_recompute [] = (PBool False, [])" by (simp add: pop_recompute_def)
  have fn: "filename demo_sys double_deco [PInt 21] [] = Inr double_fn"
    by (simp add: key_defs double_deco_def double_fn_def)
  have miss: "\<not> keepweakref double_deco \<or> cache (disk_state ''N'') double_fn = None"
    by (simp add: double_deco_def)
  have ex: "double_fn \<in> dom (files (disk_state ''N''))" by (simp add: disk_state_def)
  have rd: "read_bytes demo_sys double_fn (disk_state ''N'') = Inr PNone"
    by (simp add: read_bytes_def demo_defs)
  have res: "fst (finish demo_sys double_deco double_fn [PInt 21] [] PNone (disk_state ''N'')) = Inr (PInt 42)"
    by (simp add: store_defs demo_defs str_nat.simps)
  have c0: "calls (disk_state ''N'') = 0" by (simp add: calls_def disk_state_def)
  from cached_None_recomputed [OF flag _ fn miss ex] rd res c0
  show ?thesis by simp
qed

text \<open>
  Claim C2 at a truncated cache file. The file for \<open>double(21)\<close> exists and is
  empty; \<open>cPickle.load\<close> raises \<open>EOFError\<close> with no arguments; the handler's
  \<open>e.args[0]\<close> raises \<open>IndexError\<close>, which reaches the caller: no warning, no
  recomputation.
\<close>

theorem truncated_cache_file_raises:
  "read_bytes demo_sys double_fn (disk_state []) = Inl (Exn ''EOFError'' [])
   \<and> wrapper demo_sys double_deco [PInt 21] [] (disk_state []) = (Inl IndexError, disk_state [])"
  by (simp add: key_defs store_defs demo_defs)

section \<open>Writing the cache file\<close>

lemma write_failure_recovered:
  assumes "func d args kw = Inr v" "write_file sy d fn v (files s) = (fs, Some e)"
    "exn_args e = a # as"
  shows "compute sy d fn args kw s =
     (Inr v, s\<lparr>log := log s @ [Called args kw,
               Warned (''Couldn't pickle to '' @ fn @ '': '' @ str a)], files := fs\<rparr>)"
  using assms by (simp add: compute_def warn_handler_def Let_def)

lemma write_failure_no_args:
  assumes "func d args kw = Inr v" "write_file sy d fn v (files s) = (fs, Some e)"
    "exn_args e = []"
  shows "fst (compute sy d fn args kw s) = Inl IndexError"
  using assms by (simp add: compute_def warn_handler_def Let_def)

text \<open>
  Claim C3 at a result whose pickling raises an exception with no arguments. The
  function returns its object; \<open>cPickle.dump\<close> raises; the handler's
  \<open>e.args[0]\<close> raises \<open>IndexError\<close>, and the call fails with it instead of
  returning the result.
\<close>

theorem unpicklable_result_raises:
  "func frame_deco [] [] = Inr (PObj ''<frame>'' True True)
   \<and> pickle_dump demo_sys (PObj ''<frame>'' True True) = Inl (Exn ''NotImplementedError'' [], [])
   \<and> fst (wrapper demo_sys frame_deco [] [] empty_state) = Inl IndexError"
  by (simp add: key_defs store_defs demo_defs)

section \<open>Group and mode of the cache files\<close>

lemma and_not_and: "(a AND NOT x) AND x = (0::int)"
  by (simp add: and.assoc)

lemma dir_mask_no_exec: "dir_mask m AND (S_IXUSR OR S_IXGRP OR S_IXOTH) = 0"
  unfolding dir_mask_def by (rule and_not_and)

lemma cachable_existing:
  "dirs cdir = Some st \<Longrightarrow>
     \<exists>d. cachable sy dirs f fmod fname ver cdir kwr ign = Inr (dirs, d)
       \<and> gid d = Some (st_gid st) \<and> mode d = Some (dir_mask (st_mode st))
       \<and> func d = f \<and> cache_dir d = cdir"
  by (simp add: cachable_def)

lemma policy_applied:
  assumes "gid d = Some g" "g \<noteq> 0" "mode d = Some m" "m \<noteq> 0"
    and "write_file sy d fn v fs = (fs', None)"
  shows "\<exists>f. fs' fn = Some f \<and> fgid f = g \<and> fmode f = m"
  using assms
  by (auto simp: write_file_def chown_step_def chmod_step_def Let_def
      split: option.splits sum.splits prod.splits)

lemma staff_group_applied:
  "cachable demo_sys staff_dirs double ''m'' ''double'' None ''/tmp/c'' False {} =
     Inr (staff_dirs, staff_deco)
   \<and> files (snd (wrapper demo_sys staff_deco [PInt 21] [] empty_state)) double_fn =
       Some \<lparr>fdata = ''I42'', fgid = 50, fmode = 436\<rparr>"
  by (simp add: cachable_def dir_mask_def S_IMODE_def S_IXUSR_def S_IXGRP_def S_IXOTH_def
      key_defs store_defs demo_defs)

text \<open>
  Claim C9 at a cache directory of group \<open>0\<close>. \<open>cachable\<close> captures
  \<open>gid = 0\<close> and the mask \<open>0644\<close>; \<open>if gid:\<close> is false for \<open>0\<close>,
  so \<open>fchown\<close> is not called, and the file the wrapper writes keeps the group of the
  process (\<open>1000\<close>).
\<close>

theorem root_group_not_applied:
  "cachable demo_sys root_dirs double ''m'' ''double'' None ''/tmp/c'' False {} =
     Inr (root_dirs, root_deco)
   \<and> gid root_deco = Some 0
   \<and> fst (wrapper demo_sys root_deco [PInt 21] [] empty_state) = Inr (PInt 42)
   \<and> files (snd (wrapper demo_sys root_deco [PInt 21] [] empty_state)) double_fn =
       Some \<lparr>fdata = ''I42'', fgid = 1000, fmode = 420\<rparr>"
  by (simp add: cachable_def dir_mask_def S_IMODE_def S_IXUSR_def S_IXGRP_def S_IXOTH_def
      key_defs store_defs demo_defs)

end
